theory Spec2Isabelle
  imports Main "HOL-Library.Word"
begin

section \<open>The object component of js-ipfs (src/core/components/object.js)\<close>

text \<open>
  The component is a thin layer over libraries that are not part of the repository:
  \<^verbatim>\<open>ipld-dag-pb\<close> (DAGNode, DAGLink and the binary codec), \<^verbatim>\<open>cids\<close>,
  \<^verbatim>\<open>multihashes\<close>, the Buffer and JSON built-ins, and the IPLD resolver over the
  block service. Callbacks are modelled as results: \<open>Inl\<close> is the error handed to the
  callback (or thrown), \<open>Inr\<close> the value. Operations that write return the store as
  well.
\<close>

subsection \<open>Data\<close>

type_synonym bytes = "8 word list"

type_synonym cid = bytes

text \<open>
  The source raises \<^verbatim>\<open>new Error(message)\<close>; the constructors are the error kinds of
  the specification, each standing for the message given beside it.
  \<^item> \<open>MalformedIdentifier\<close>: \<^verbatim>\<open>'unsupported multihash'\<close>, and what Buffer and CID
    constructors throw on bad input;
  \<^item> \<open>MalformedDocument\<close>: \<^verbatim>\<open>'failed to parse JSON: ...'\<close>;
  \<^item> \<open>UnknownEncoding enc\<close>: \<^verbatim>\<open>'unkown encoding: ${encoding}'\<close>;
  \<^item> \<open>UnrecognizedInput\<close>: \<^verbatim>\<open>'obj not recognized'\<close>;
  \<^item> \<open>TypeError\<close>: the exception of the JavaScript runtime when a property of
    \<^verbatim>\<open>undefined\<close> or \<^verbatim>\<open>null\<close> is read;
  \<^item> \<open>CodecError\<close>: an error reported by the binary codec;
  \<^item> \<open>LinkNotFound\<close>, \<open>NotFound\<close>, \<open>VerificationFailed\<close>: kinds of the
    specification that no line of the source produces itself; they come from the
    libraries it calls.
\<close>

datatype error =
    MalformedIdentifier
  | MalformedDocument
  | UnknownEncoding string
  | UnrecognizedInput
  | LinkNotFound
  | NotFound
  | VerificationFailed
  | TypeError
  | CodecError

text \<open>
  A DAGLink keeps the three arguments of its constructor. A name or a size that was
  \<^verbatim>\<open>undefined\<close> at construction is \<open>None\<close>. Sizes are JavaScript numbers with an
  integer value.
\<close>

record DAGLink =
  link_name :: "string option"
  link_size :: "int option"
  link_multihash :: bytes

record DAGNode =
  data :: bytes
  links :: "DAGLink list"
  multihash :: bytes

text \<open>The value of \<^verbatim>\<open>JSON.parse\<close>: the fields that \<^verbatim>\<open>parseJSONBuffer\<close> reads.\<close>

record json_link =
  jName :: "string option"
  jname :: "string option"
  jSize :: "int option"
  jsize :: "int option"
  jHash :: "string option"
  jhash :: "string option"
  jmultihash :: "string option"

record json_doc =
  jData :: "string option"
  jLinks :: "json_link list option"

text \<open>What \<^verbatim>\<open>normalizeMultihash\<close> receives and what it returns.\<close>

datatype mh_arg = MStr string | MBuf bytes | MOther

datatype mh_norm = NStr string | NBuf bytes

record options =
  enc :: "string option"

definition no_options :: options where
  "no_options = \<lparr>enc = None\<rparr>"

text \<open>
  The libraries the component calls. Each field is the function named in its comment;
  the theorems below hold for every choice of them.
\<close>

record lib =
  Buffer_from :: "string \<Rightarrow> string option \<Rightarrow> error + bytes"
    \<comment> \<open>\<^verbatim>\<open>new Buffer(string, enc)\<close>\<close>
  new_CID :: "mh_norm \<Rightarrow> error + cid"
    \<comment> \<open>\<^verbatim>\<open>new CID(x)\<close>, which throws on an invalid argument\<close>
  JSON_parse :: "bytes \<Rightarrow> json_doc option"
    \<comment> \<open>\<^verbatim>\<open>JSON.parse(buf.toString())\<close>\<close>
  fromB58String :: "string option \<Rightarrow> bytes option"
    \<comment> \<open>\<^verbatim>\<open>mh.fromB58String(x)\<close>, \<open>None\<close> when it throws\<close>
  toB58String :: "bytes \<Rightarrow> string"
  serialize :: "bytes \<Rightarrow> DAGLink list \<Rightarrow> error + bytes"
    \<comment> \<open>\<^verbatim>\<open>dagPB.util.serialize\<close>, on the payload and links of a node\<close>
  deserialize :: "bytes \<Rightarrow> error + bytes \<times> DAGLink list"
    \<comment> \<open>the decoding half of \<^verbatim>\<open>dagPB.util.deserialize\<close>\<close>
  multihashing :: "bytes \<Rightarrow> bytes"
    \<comment> \<open>the sha2-256 multihash of a byte sequence\<close>

subsection \<open>The DAG node model\<close>

text \<open>
  Modelled from the spec: \<^verbatim>\<open>DAGNode.create\<close> of ipld-dag-pb is missing. Sections 3
  and 4.2: a node is its payload and its links in order; its identifier is derived by
  serializing it and hashing the bytes. The source reads \<^verbatim>\<open>node.multihash\<close> right
  after \<^verbatim>\<open>DAGNode.create\<close>, so the derived identifier is a field of the result.
\<close>

definition DAGNode_create :: "lib \<Rightarrow> bytes \<Rightarrow> DAGLink list \<Rightarrow> error + DAGNode" where
  "DAGNode_create L d ls =
     (case serialize L d ls of
        Inl e \<Rightarrow> Inl e
      | Inr bs \<Rightarrow> Inr \<lparr>data = d, links = ls, multihash = multihashing L bs\<rparr>)"

text \<open>
  Modelled from the spec: \<^verbatim>\<open>DAGNode.addLink\<close> of ipld-dag-pb is missing. Section 4.2:
  the links of the result are the original ones in order, then the new one.
\<close>

definition DAGNode_addLink :: "lib \<Rightarrow> DAGNode \<Rightarrow> DAGLink \<Rightarrow> error + DAGNode" where
  "DAGNode_addLink L node link = DAGNode_create L (data node) (links node @ [link])"

text \<open>
  Modelled from the spec: \<^verbatim>\<open>DAGNode.rmLink\<close> of ipld-dag-pb is missing. Section 4.2:
  all links matching the name are removed; the operation fails with \<open>LinkNotFound\<close> if
  no link has that name. The argument is the value the caller passes, \<open>None\<close> for
  \<^verbatim>\<open>undefined\<close>, compared with each link's name.
\<close>

definition DAGNode_rmLink :: "lib \<Rightarrow> DAGNode \<Rightarrow> string option \<Rightarrow> error + DAGNode" where
  "DAGNode_rmLink L node nm =
     (if list_ex (\<lambda>l. link_name l = nm) (links node)
      then DAGNode_create L (data node) (filter (\<lambda>l. link_name l \<noteq> nm) (links node))
      else Inl LinkNotFound)"

text \<open>
  \<^verbatim>\<open>dagPB.util.deserialize\<close>: decode the bytes, then build the node from the decoded
  payload and links.
\<close>

definition dagPB_deserialize :: "lib \<Rightarrow> bytes \<Rightarrow> error + DAGNode" where
  "dagPB_deserialize L buf =
     (case deserialize L buf of
        Inl e \<Rightarrow> Inl e
      | Inr (d, ls) \<Rightarrow> DAGNode_create L d ls)"

subsection \<open>The block store and the IPLD resolver\<close>

text \<open>
  Modelled from the spec: the block service and the IPLD resolver are missing.
  Sections 2, 3, 4.4 and 4.5: the store keeps raw bytes by identifier; a put serializes
  the node and stores the bytes under the identifier it is given; a get looks the
  identifier up and fails with \<open>NotFound\<close> when it is absent, recomputes the hash of
  the fetched bytes and fails with \<open>VerificationFailed\<close> when they do not hash to the
  requested identifier, and decodes the bytes otherwise. The identifier of the fetched
  bytes is built the way every writer of the source builds it, as the CID of their
  multihash. \<open>writes\<close> counts the block writes.
\<close>

record store =
  blocks :: "cid \<rightharpoonup> bytes"
  writes :: nat

definition resolver_put :: "lib \<Rightarrow> store \<Rightarrow> DAGNode \<Rightarrow> cid \<Rightarrow> error + store" where
  "resolver_put L s node c =
     (case serialize L (data node) (links node) of
        Inl e \<Rightarrow> Inl e
      | Inr bs \<Rightarrow> Inr (s\<lparr>blocks := (blocks s)(c \<mapsto> bs), writes := Suc (writes s)\<rparr>))"

definition resolver_get :: "lib \<Rightarrow> store \<Rightarrow> cid \<Rightarrow> error + DAGNode" where
  "resolver_get L s c =
     (case blocks s c of
        None \<Rightarrow> Inl NotFound
      | Some bs \<Rightarrow>
          (if new_CID L (NBuf (multihashing L bs)) = Inr c then dagPB_deserialize L bs
           else Inl VerificationFailed))"

subsection \<open>Parsing\<close>

definition normalizeMultihash :: "lib \<Rightarrow> mh_arg \<Rightarrow> string option \<Rightarrow> error + mh_norm" where
  "normalizeMultihash L m e =
     (case m of
        MStr s \<Rightarrow>
          (if e = Some ''base58'' then Inr (NStr s)
           else (case Buffer_from L s e of Inl err \<Rightarrow> Inl err | Inr b \<Rightarrow> Inr (NBuf b)))
      | MBuf b \<Rightarrow> Inr (NBuf b)
      | MOther \<Rightarrow> Inl MalformedIdentifier)"

text \<open>
  JavaScript's \<^verbatim>\<open>a || b\<close> is \<^verbatim>\<open>a\<close> when \<^verbatim>\<open>a\<close> is truthy and \<^verbatim>\<open>b\<close> otherwise.
  \<^verbatim>\<open>undefined\<close>, the empty string and the number 0 are falsy.
\<close>

definition truthy_str :: "string option \<Rightarrow> bool" where
  "truthy_str a = (case a of None \<Rightarrow> False | Some s \<Rightarrow> s \<noteq> [])"

definition truthy_num :: "int option \<Rightarrow> bool" where
  "truthy_num a = (case a of None \<Rightarrow> False | Some n \<Rightarrow> n \<noteq> 0)"

definition js_or :: "('a \<Rightarrow> bool) \<Rightarrow> 'a \<Rightarrow> 'a \<Rightarrow> 'a" where
  "js_or truthy a b = (if truthy a then a else b)"

text \<open>
  \<^verbatim>\<open>new DAGLink(name, size, multihash)\<close> of ipld-dag-pb, which is not part of the
  repository: the constructor keeps its arguments and asserts that a size is given, so
  it throws on a size that is \<^verbatim>\<open>undefined\<close> or 0. \<open>None\<close> is the exception.
\<close>

definition new_DAGLink :: "string option \<Rightarrow> int option \<Rightarrow> bytes \<Rightarrow> DAGLink option" where
  "new_DAGLink nm sz h =
     (if truthy_num sz then Some \<lparr>link_name = nm, link_size = sz, link_multihash = h\<rparr>
      else None)"

text \<open>
  The body of the \<^verbatim>\<open>map\<close> callback of \<^verbatim>\<open>parseJSONBuffer\<close>; \<open>None\<close> is an exception
  thrown inside the \<^verbatim>\<open>try\<close> block.
\<close>

definition parse_link :: "lib \<Rightarrow> json_link \<Rightarrow> DAGLink option" where
  "parse_link L link =
     (case fromB58String L
             (js_or truthy_str (js_or truthy_str (jHash link) (jhash link)) (jmultihash link)) of
        None \<Rightarrow> None
      | Some h \<Rightarrow>
          new_DAGLink (js_or truthy_str (jName link) (jname link))
            (js_or truthy_num (jSize link) (jsize link)) h)"

fun parse_links :: "lib \<Rightarrow> json_link list \<Rightarrow> DAGLink list option" where
  "parse_links L [] = Some []"
| "parse_links L (x # xs) =
     (case parse_link L x of
        None \<Rightarrow> None
      | Some l \<Rightarrow> (case parse_links L xs of None \<Rightarrow> None | Some ls \<Rightarrow> Some (l # ls)))"

text \<open>
  \<^verbatim>\<open>parseJSONBuffer\<close> after \<^verbatim>\<open>JSON.parse\<close>: the rest of the \<^verbatim>\<open>try\<close> block, where
  every exception becomes \<open>MalformedDocument\<close>, then \<^verbatim>\<open>DAGNode.create\<close>.
\<close>

definition parseJSONDoc :: "lib \<Rightarrow> json_doc \<Rightarrow> error + DAGNode" where
  "parseJSONDoc L parsed =
     (case parse_links L (case jLinks parsed of None \<Rightarrow> [] | Some ls \<Rightarrow> ls) of
        None \<Rightarrow> Inl MalformedDocument
      | Some ls \<Rightarrow>
          (case jData parsed of
             None \<Rightarrow> Inl MalformedDocument
           | Some s \<Rightarrow>
               (case Buffer_from L s None of
                  Inl e \<Rightarrow> Inl MalformedDocument
                | Inr d \<Rightarrow> DAGNode_create L d ls)))"

definition parseJSONBuffer :: "lib \<Rightarrow> bytes \<Rightarrow> error + DAGNode" where
  "parseJSONBuffer L buf =
     (case JSON_parse L buf of
        None \<Rightarrow> Inl MalformedDocument
      | Some parsed \<Rightarrow> parseJSONDoc L parsed)"

definition parseProtoBuffer :: "lib \<Rightarrow> bytes \<Rightarrow> error + DAGNode" where
  "parseProtoBuffer L buf = dagPB_deserialize L buf"

definition parseBuffer :: "lib \<Rightarrow> bytes \<Rightarrow> string \<Rightarrow> error + DAGNode" where
  "parseBuffer L buf encoding =
     (if encoding = ''json'' then parseJSONBuffer L buf
      else if encoding = ''protobuf'' then parseProtoBuffer L buf
      else Inl (UnknownEncoding encoding))"

subsection \<open>The object API\<close>

definition object_get :: "lib \<Rightarrow> store \<Rightarrow> mh_arg \<Rightarrow> options \<Rightarrow> error + DAGNode" where
  "object_get L s m opts =
     (case normalizeMultihash L m (enc opts) of
        Inl e \<Rightarrow> Inl e
      | Inr mh \<Rightarrow>
          (case new_CID L mh of
             Inl e \<Rightarrow> Inl e
           | Inr c \<Rightarrow> resolver_get L s c))"

text \<open>
  Every writer of the source stores a node under \<^verbatim>\<open>new CID(node.multihash)\<close>.
\<close>

definition persist :: "lib \<Rightarrow> store \<Rightarrow> DAGNode \<Rightarrow> error + store" where
  "persist L s node =
     (case new_CID L (NBuf (multihash node)) of
        Inl e \<Rightarrow> Inl e
      | Inr c \<Rightarrow> resolver_put L s node c)"

definition editAndSave ::
  "lib \<Rightarrow> (DAGNode \<Rightarrow> error + DAGNode) \<Rightarrow> store \<Rightarrow> mh_arg \<Rightarrow> options \<Rightarrow> (error + DAGNode) \<times> store"
where
  "editAndSave L edit s m opts =
     (case object_get L s m opts of
        Inl e \<Rightarrow> (Inl e, s)
      | Inr node \<Rightarrow>
          (case edit node of
             Inl e \<Rightarrow> (Inl e, s)
           | Inr node' \<Rightarrow>
               (case persist L s node' of
                  Inl e \<Rightarrow> (Inl e, s)
                | Inr s' \<Rightarrow> (Inr node', s'))))"

definition object_new :: "lib \<Rightarrow> store \<Rightarrow> (error + DAGNode) \<times> store" where
  "object_new L s =
     (case DAGNode_create L [] [] of
        Inl e \<Rightarrow> (Inl e, s)
      | Inr node \<Rightarrow>
          (case persist L s node of
             Inl e \<Rightarrow> (Inl e, s)
           | Inr s' \<Rightarrow> (Inr node, s')))"

text \<open>
  The argument of \<^verbatim>\<open>put\<close> is any JavaScript value. The source tells the shapes apart
  with \<^verbatim>\<open>Buffer.isBuffer(obj)\<close>, a truthy \<^verbatim>\<open>obj.multihash\<close> and
  \<^verbatim>\<open>typeof obj === 'object'\<close>, in that order: \<open>PBuffer\<close> is a Buffer, \<open>PNode\<close> an
  object with a multihash, \<open>PObject\<close> another object, read as its \<^verbatim>\<open>Data\<close> and
  \<^verbatim>\<open>Links\<close>, and \<open>PPrim\<close> a string, a number or a boolean.
\<close>

datatype js_prim = PStr string | PNum int | PBool bool

datatype put_arg =
    PBuffer bytes
  | PNode DAGNode
  | PObject bytes "DAGLink list"
  | PPrim js_prim
  | PUndefined
  | PNull

text \<open>
  The branches of \<^verbatim>\<open>put\<close> that assign \<^verbatim>\<open>node\<close> before \<^verbatim>\<open>next()\<close>.
  \<^verbatim>\<open>if (encoding)\<close> takes an absent encoding and the empty string alike as no
  encoding. Reading \<^verbatim>\<open>obj.multihash\<close> of \<^verbatim>\<open>undefined\<close> or \<^verbatim>\<open>null\<close> throws.
\<close>

definition put_node :: "lib \<Rightarrow> put_arg \<Rightarrow> options \<Rightarrow> error + DAGNode" where
  "put_node L obj opts =
     (case obj of
        PBuffer b \<Rightarrow>
          (case enc opts of
             None \<Rightarrow> DAGNode_create L b []
           | Some encoding \<Rightarrow>
               (if encoding \<noteq> [] then parseBuffer L b encoding
                else DAGNode_create L b []))
      | PNode n \<Rightarrow> Inr n
      | PObject d ls \<Rightarrow> DAGNode_create L d ls
      | PPrim p \<Rightarrow> Inl UnrecognizedInput
      | PUndefined \<Rightarrow> Inl TypeError
      | PNull \<Rightarrow> Inl TypeError)"

text \<open>The inner function \<^verbatim>\<open>next\<close> of \<^verbatim>\<open>put\<close>.\<close>

definition put_next :: "lib \<Rightarrow> store \<Rightarrow> DAGNode \<Rightarrow> (error + DAGNode) \<times> store" where
  "put_next L s node =
     (case persist L s node of
        Inl e \<Rightarrow> (Inl e, s)
      | Inr s' \<Rightarrow> (object_get L s' (MBuf (multihash node)) no_options, s'))"

definition object_put :: "lib \<Rightarrow> store \<Rightarrow> put_arg \<Rightarrow> options \<Rightarrow> (error + DAGNode) \<times> store" where
  "object_put L s obj opts =
     (case put_node L obj opts of
        Inl e \<Rightarrow> (Inl e, s)
      | Inr node \<Rightarrow> put_next L s node)"

definition object_data :: "lib \<Rightarrow> store \<Rightarrow> mh_arg \<Rightarrow> options \<Rightarrow> error + bytes" where
  "object_data L s m opts =
     (case object_get L s m opts of Inl e \<Rightarrow> Inl e | Inr node \<Rightarrow> Inr (data node))"

definition object_links :: "lib \<Rightarrow> store \<Rightarrow> mh_arg \<Rightarrow> options \<Rightarrow> error + DAGLink list" where
  "object_links L s m opts =
     (case object_get L s m opts of Inl e \<Rightarrow> Inl e | Inr node \<Rightarrow> Inr (links node))"

text \<open>
  The numbers of \<^verbatim>\<open>stat\<close> are IEEE 754 doubles. A double with an integer value
  is that integer; \<open>js_round\<close> is the double nearest to an integer, with 53
  significant bits and ties to the even significand. Integers up to \<open>2 ^ 53\<close> in
  magnitude are doubles themselves.
\<close>

function bitlen :: "int \<Rightarrow> nat" where
  "bitlen n = (if n \<le> 0 then 0 else Suc (bitlen (n div 2)))"
  by pat_completeness auto
termination
  by (relation "measure nat") auto

definition js_round :: "int \<Rightarrow> int" where
  "js_round n =
     (let a = \<bar>n\<bar> in
      if a \<le> 2 ^ 53 then n
      else
        (let q = 2 ^ (bitlen a - 53);
             m = a div q;
             r = a mod q;
             up = (q < 2 * r \<or> (2 * r = q \<and> odd m))
         in sgn n * ((if up then m + 1 else m) * q)))"

text \<open>
  \<^verbatim>\<open>a + b\<close> on numbers. \<open>None\<close> is a value that is not a finite number:
  \<^verbatim>\<open>undefined\<close> as an operand gives \<^verbatim>\<open>NaN\<close>, a sum of magnitude \<open>2 ^ 1024\<close> or
  more gives an infinity, and both stay not finite under further additions.
\<close>

definition js_add :: "int option \<Rightarrow> int option \<Rightarrow> int option" where
  "js_add a b =
     (case a of
        None \<Rightarrow> None
      | Some x \<Rightarrow>
          (case b of
             None \<Rightarrow> None
           | Some y \<Rightarrow>
               (let r = js_round (x + y) in if \<bar>r\<bar> < 2 ^ 1024 then Some r else None)))"

text \<open>
  \<^verbatim>\<open>buf.length\<close> of a Buffer. A Buffer holds at most \<^verbatim>\<open>buffer.kMaxLength\<close> bytes,
  which is below \<open>2 ^ 31\<close> in the Node.js releases the component was written for, so
  its length is read as a 32-bit unsigned number: on every byte sequence that fits a
  Buffer it is the length of the sequence, and no sum of two Buffer lengths rounds.
\<close>

definition buffer_length :: "bytes \<Rightarrow> int" where
  "buffer_length b = int (length b) mod 2 ^ 32"

record stat_result =
  Hash :: string
  NumLinks :: int
  BlockSize :: int
  LinksSize :: int
  DataSize :: int
  CumulativeSize :: "int option"

definition object_stat :: "lib \<Rightarrow> store \<Rightarrow> mh_arg \<Rightarrow> options \<Rightarrow> error + stat_result" where
  "object_stat L s m opts =
     (case object_get L s m opts of
        Inl e \<Rightarrow> Inl e
      | Inr node \<Rightarrow>
          (case serialize L (data node) (links node) of
             Inl e \<Rightarrow> Inl e
           | Inr serialized \<Rightarrow>
               (let blockSize = buffer_length serialized;
                    linkLength = foldl (\<lambda>a l. js_add a (link_size l)) (Some 0) (links node)
                in Inr \<lparr>Hash = toB58String L (multihash node),
                        NumLinks = int (length (links node)),
                        BlockSize = blockSize,
                        LinksSize = blockSize - buffer_length (data node),
                        DataSize = buffer_length (data node),
                        CumulativeSize = js_add (Some blockSize) linkLength\<rparr>)))"

subsection \<open>The patch operations\<close>

text \<open>
  The \<^verbatim>\<open>linkRef\<close> of \<^verbatim>\<open>patch.rmLink\<close> is a name or a DAGLink; a DAGLink is replaced
  by its \<^verbatim>\<open>_name\<close> before \<^verbatim>\<open>DAGNode.rmLink\<close> is called.
\<close>

datatype link_ref = RefName string | RefLink DAGLink

definition patch_addLink ::
  "lib \<Rightarrow> store \<Rightarrow> mh_arg \<Rightarrow> DAGLink \<Rightarrow> options \<Rightarrow> (error + DAGNode) \<times> store" where
  "patch_addLink L s m link opts = editAndSave L (\<lambda>node. DAGNode_addLink L node link) s m opts"

definition patch_rmLink ::
  "lib \<Rightarrow> store \<Rightarrow> mh_arg \<Rightarrow> link_ref \<Rightarrow> options \<Rightarrow> (error + DAGNode) \<times> store" where
  "patch_rmLink L s m linkRef opts =
     editAndSave L
       (\<lambda>node. DAGNode_rmLink L node
                 (case linkRef of RefName nm \<Rightarrow> Some nm | RefLink l \<Rightarrow> link_name l))
       s m opts"

definition patch_appendData ::
  "lib \<Rightarrow> store \<Rightarrow> mh_arg \<Rightarrow> bytes \<Rightarrow> options \<Rightarrow> (error + DAGNode) \<times> store" where
  "patch_appendData L s m d opts =
     editAndSave L (\<lambda>node. DAGNode_create L (data node @ d) (links node)) s m opts"

definition patch_setData ::
  "lib \<Rightarrow> store \<Rightarrow> mh_arg \<Rightarrow> bytes \<Rightarrow> options \<Rightarrow> (error + DAGNode) \<times> store" where
  "patch_setData L s m d opts =
     editAndSave L (\<lambda>node. DAGNode_create L d (links node)) s m opts"

subsection \<open>A reference instance of the libraries\<close>

text \<open>
  Concrete runs need concrete libraries. The instance below is a small stand-in:
  a length-prefixed codec that rejects a length that does not fit in one byte and a size
  that does not fit in eight, a checksum in the place of sha2-256, and character codes
  in the place of base-58. It is used only to
  run the operations on explicit inputs.
\<close>

definition tlv_name :: "string option \<Rightarrow> bytes option" where
  "tlv_name a =
     (case a of
        None \<Rightarrow> Some [0]
      | Some n \<Rightarrow>
          (if length n < 256 then Some (1 # of_nat (length n) # map (\<lambda>c. of_nat (of_char c)) n)
           else None))"

definition be8 :: "int \<Rightarrow> bytes" where
  "be8 z = map (\<lambda>i. of_int (z div 256 ^ i)) [7, 6, 5, 4, 3, 2, 1, 0]"

definition be_value :: "bytes \<Rightarrow> int" where
  "be_value bs = foldl (\<lambda>a b. a * 256 + uint b) 0 bs"

definition tlv_size :: "int option \<Rightarrow> bytes option" where
  "tlv_size a =
     (case a of
        None \<Rightarrow> Some [0]
      | Some z \<Rightarrow>
          (if 0 \<le> z \<and> z < 256 then Some [1, of_int z]
           else if 0 \<le> z \<and> z < 2 ^ 64 then Some (2 # be8 z)
           else None))"

definition tlv_link :: "DAGLink \<Rightarrow> bytes option" where
  "tlv_link l =
     (case tlv_name (link_name l) of
        None \<Rightarrow> None
      | Some a \<Rightarrow>
          (case tlv_size (link_size l) of
             None \<Rightarrow> None
           | Some b \<Rightarrow>
               (if length (link_multihash l) < 256
                then Some (a @ b @ of_nat (length (link_multihash l)) # link_multihash l)
                else None)))"

fun tlv_links :: "DAGLink list \<Rightarrow> bytes option" where
  "tlv_links [] = Some []"
| "tlv_links (l # ls) =
     (case tlv_link l of
        None \<Rightarrow> None
      | Some a \<Rightarrow> (case tlv_links ls of None \<Rightarrow> None | Some b \<Rightarrow> Some (a @ b)))"

definition tlv_serialize :: "bytes \<Rightarrow> DAGLink list \<Rightarrow> error + bytes" where
  "tlv_serialize d ls =
     (if length d < 256 \<and> length ls < 256
      then (case tlv_links ls of
              None \<Rightarrow> Inl CodecError
            | Some b \<Rightarrow> Inr (of_nat (length d) # d @ of_nat (length ls) # b))
      else Inl CodecError)"

definition take_field :: "bytes \<Rightarrow> (bytes \<times> bytes) option" where
  "take_field bs =
     (case bs of
        [] \<Rightarrow> None
      | n # r \<Rightarrow> (if unat n \<le> length r then Some (take (unat n) r, drop (unat n) r) else None))"

definition untlv_name :: "bytes \<Rightarrow> (string option \<times> bytes) option" where
  "untlv_name bs =
     (case bs of
        [] \<Rightarrow> None
      | t # r \<Rightarrow>
          (if t = 0 then Some (None, r)
           else if t = 1
           then (case take_field r of
                   None \<Rightarrow> None
                 | Some (f, r') \<Rightarrow> Some (Some (map (\<lambda>w. char_of (unat w)) f), r'))
           else None))"

definition untlv_size :: "bytes \<Rightarrow> (int option \<times> bytes) option" where
  "untlv_size bs =
     (case bs of
        [] \<Rightarrow> None
      | t # r \<Rightarrow>
          (if t = 0 then Some (None, r)
           else if t = 1 then (case r of [] \<Rightarrow> None | v # r' \<Rightarrow> Some (Some (uint v), r'))
           else if t = 2 \<and> 8 \<le> length r
           then Some (Some (be_value (take 8 r)), drop 8 r)
           else None))"

definition untlv_link :: "bytes \<Rightarrow> (DAGLink \<times> bytes) option" where
  "untlv_link bs =
     (case untlv_name bs of
        None \<Rightarrow> None
      | Some (nm, r1) \<Rightarrow>
          (case untlv_size r1 of
             None \<Rightarrow> None
           | Some (sz, r2) \<Rightarrow>
               (case take_field r2 of
                  None \<Rightarrow> None
                | Some (h, r3) \<Rightarrow>
                    Some (\<lparr>link_name = nm, link_size = sz, link_multihash = h\<rparr>, r3))))"

fun untlv_links :: "nat \<Rightarrow> bytes \<Rightarrow> (DAGLink list \<times> bytes) option" where
  "untlv_links 0 bs = Some ([], bs)"
| "untlv_links (Suc k) bs =
     (case untlv_link bs of
        None \<Rightarrow> None
      | Some (l, r) \<Rightarrow>
          (case untlv_links k r of None \<Rightarrow> None | Some (ls, r') \<Rightarrow> Some (l # ls, r')))"

definition tlv_deserialize :: "bytes \<Rightarrow> error + bytes \<times> DAGLink list" where
  "tlv_deserialize bs =
     (case take_field bs of
        None \<Rightarrow> Inl CodecError
      | Some (d, r) \<Rightarrow>
          (case r of
             [] \<Rightarrow> Inl CodecError
           | k # r' \<Rightarrow>
               (case untlv_links (unat k) r' of
                  None \<Rightarrow> Inl CodecError
                | Some (ls, rest) \<Rightarrow> (if rest = [] then Inr (d, ls) else Inl CodecError))))"

definition sum_hash :: "bytes \<Rightarrow> bytes" where
  "sum_hash bs = [0x12, 0x02, of_nat (length bs), foldr (+) bs 0]"

definition text_bytes :: "string \<Rightarrow> bytes" where
  "text_bytes s = map (\<lambda>c. of_nat (of_char c)) s"

definition bytes_text :: "bytes \<Rightarrow> string" where
  "bytes_text bs = map (\<lambda>w. char_of (unat w)) bs"

definition check_mh :: "bytes \<Rightarrow> error + cid" where
  "check_mh b = (if length b = 4 \<and> take 2 b = [0x12, 0x02] then Inr b else Inl MalformedIdentifier)"

text \<open>
  The reference instance has no JSON parser: it knows the texts of a few sample
  documents. \<open>canonical_text\<close> and \<open>alias_text\<close> are one document, a link with
  an empty name and size 10, written with the canonical and with the lower-case field
  names.
\<close>

definition sample_hash :: string where
  "sample_hash = ''QmdfTbBqBPQ7VNxZEYEj14VmRuZBkqFbiwReogJgS1zR1n''"

definition canonical_text :: string where
  \<open>canonical_text =
     ''{"Data":"abc","Links":[{"Name":"","Size":10,"Hash":"'' @ sample_hash @ ''"}]}''\<close>

definition alias_text :: string where
  \<open>alias_text =
     ''{"Data":"abc","Links":[{"name":"","size":10,"hash":"'' @ sample_hash @ ''"}]}''\<close>

definition sample_documents :: "(string \<times> json_doc) list" where
  \<open>sample_documents =
     [(''{"Data":"abc","Links":[]}'',
       \<lparr>jData = Some ''abc'', jLinks = Some []\<rparr>),
      (''{"Data":"abc"}'',
       \<lparr>jData = Some ''abc'', jLinks = None\<rparr>),
      (canonical_text,
       \<lparr>jData = Some ''abc'',
        jLinks = Some [\<lparr>jName = Some [], jname = None, jSize = Some 10, jsize = None,
                         jHash = Some sample_hash, jhash = None, jmultihash = None\<rparr>]\<rparr>),
      (alias_text,
       \<lparr>jData = Some ''abc'',
        jLinks = Some [\<lparr>jName = None, jname = Some [], jSize = None, jsize = Some 10,
                         jHash = None, jhash = Some sample_hash, jmultihash = None\<rparr>]\<rparr>)]\<close>

definition test_lib :: lib where
  "test_lib =
     \<lparr>Buffer_from = (\<lambda>s e. if e = None \<or> e = Some ''utf8'' then Inr (text_bytes s) else Inl MalformedIdentifier),
      new_CID = (\<lambda>x. case x of NStr s \<Rightarrow> check_mh (text_bytes s) | NBuf b \<Rightarrow> check_mh b),
      JSON_parse = (\<lambda>b. map_of (map (\<lambda>(t, d). (text_bytes t, d)) sample_documents) b),
      fromB58String = (\<lambda>x. case x of None \<Rightarrow> None | Some s \<Rightarrow> Some (text_bytes s)),
      toB58String = bytes_text,
      serialize = tlv_serialize,
      deserialize = tlv_deserialize,
      multihashing = sum_hash\<rparr>"

definition empty_store :: store where
  "empty_store = \<lparr>blocks = Map.empty, writes = 0\<rparr>"

subsection \<open>Sample stores and documents\<close>

text \<open>The empty store after a put of the three bytes 1, 2, 3.\<close>

definition abc_store :: store where
  "abc_store = snd (object_put test_lib empty_store (PBuffer [1, 2, 3]) no_options)"

text \<open>
  The same store after the bytes under the node's identifier have been replaced by
  the encoding of another node, whose payload is the single byte 9.
\<close>

definition corrupted_store :: store where
  "corrupted_store = abc_store\<lparr>blocks := (blocks abc_store)([18, 2, 5, 9] \<mapsto> [1, 9, 0])\<rparr>"

text \<open>A node with a 3-byte payload and one link of declared size 10, and its store.\<close>

definition sample_link :: DAGLink where
  "sample_link = \<lparr>link_name = Some ''a'', link_size = Some 10, link_multihash = [7]\<rparr>"

definition linked_node :: DAGNode where
  "linked_node = \<lparr>data = [1, 2, 3], links = [sample_link], multihash = [18, 2, 12, 128]\<rparr>"

definition linked_store :: store where
  "linked_store =
     snd (object_put test_lib empty_store (PObject [1, 2, 3] [sample_link]) no_options)"

text \<open>
  A node with two links of declared sizes \<open>2 ^ 53 - 1\<close> and 2, and its store.
\<close>

definition big_links :: "DAGLink list" where
  "big_links =
     [\<lparr>link_name = Some ''a'', link_size = Some 9007199254740991, link_multihash = [7]\<rparr>,
      \<lparr>link_name = Some ''b'', link_size = Some 2, link_multihash = [8]\<rparr>]"

definition big_store :: store where
  "big_store = snd (object_put test_lib empty_store (PObject [1, 2, 3] big_links) no_options)"

text \<open>
  A link object written with the canonical field names only, and the same link with
  each field moved to its lower-case alias, or with the hash moved to \<^verbatim>\<open>multihash\<close>.
\<close>

definition canonical_link :: "json_link \<Rightarrow> bool" where
  "canonical_link l =
     (jname l = None \<and> jsize l = None \<and> jhash l = None \<and> jmultihash l = None)"

definition lower_case_link :: "json_link \<Rightarrow> json_link" where
  "lower_case_link l =
     \<lparr>jName = None, jname = jName l, jSize = None, jsize = jSize l,
      jHash = None, jhash = jHash l, jmultihash = None\<rparr>"

definition multihash_link :: "json_link \<Rightarrow> json_link" where
  "multihash_link l = l\<lparr>jHash := None, jmultihash := jHash l\<rparr>"

section \<open>Properties\<close>

subsection \<open>Auxiliary facts\<close>

lemma object_get_MBuf:
  "object_get L s (MBuf b) opts =
     (case new_CID L (NBuf b) of Inl e \<Rightarrow> Inl e | Inr c \<Rightarrow> resolver_get L s c)"
  by (simp add: object_get_def normalizeMultihash_def)

lemma resolver_get_decoded:
  assumes "blocks s c = Some bs" and "new_CID L (NBuf (multihashing L bs)) = Inr c"
    and "deserialize L bs = Inr (d, ls)" and "serialize L d ls = Inr e"
  shows "resolver_get L s c = Inr \<lparr>data = d, links = ls, multihash = multihashing L e\<rparr>"
  using assms by (simp add: resolver_get_def dagPB_deserialize_def DAGNode_create_def)

lemma resolver_get_altered:
  assumes "blocks s c = Some bs" and "new_CID L (NBuf (multihashing L bs)) \<noteq> Inr c"
  shows "resolver_get L s c = Inl VerificationFailed"
  using assms by (simp add: resolver_get_def)

lemma resolver_get_cong:
  "blocks s' c = blocks s c \<Longrightarrow> resolver_get L s' c = resolver_get L s c"
  by (simp add: resolver_get_def)

lemma DAGNode_create_InrD:
  assumes "DAGNode_create L d ls = Inr node"
  shows "\<exists>e. serialize L d ls = Inr e \<and>
           node = \<lparr>data = d, links = ls, multihash = multihashing L e\<rparr>"
  using assms by (auto simp: DAGNode_create_def split: sum.splits)

lemma resolver_get_InrD:
  assumes "resolver_get L s c = Inr node"
  shows "\<exists>bs e. blocks s c = Some bs \<and>
           new_CID L (NBuf (multihashing L bs)) = Inr c \<and>
           deserialize L bs = Inr (data node, links node) \<and>
           serialize L (data node) (links node) = Inr e \<and>
           multihash node = multihashing L e"
  using assms
  by (auto simp: resolver_get_def dagPB_deserialize_def DAGNode_create_def
      split: option.splits sum.splits if_splits)

lemma object_get_InrD:
  assumes "object_get L s m opts = Inr node"
  shows "\<exists>mh c bs e. normalizeMultihash L m (enc opts) = Inr mh \<and> new_CID L mh = Inr c \<and>
           blocks s c = Some bs \<and>
           new_CID L (NBuf (multihashing L bs)) = Inr c \<and>
           deserialize L bs = Inr (data node, links node) \<and>
           serialize L (data node) (links node) = Inr e \<and>
           multihash node = multihashing L e"
  using assms resolver_get_InrD
  by (fastforce simp: object_get_def split: sum.splits)

lemma persist_written:
  assumes "new_CID L (NBuf (multihash node)) = Inr c"
    and "serialize L (data node) (links node) = Inr bs"
  shows "persist L s node = Inr (s\<lparr>blocks := (blocks s)(c \<mapsto> bs), writes := Suc (writes s)\<rparr>)"
  using assms by (simp add: persist_def resolver_put_def)

lemma persist_InrD:
  assumes "persist L s node = Inr s'"
  shows "\<exists>c bs. new_CID L (NBuf (multihash node)) = Inr c \<and>
           serialize L (data node) (links node) = Inr bs \<and>
           s' = s\<lparr>blocks := (blocks s)(c \<mapsto> bs), writes := Suc (writes s)\<rparr>"
  using assms by (auto simp: persist_def resolver_put_def split: sum.splits)

text \<open>The three outcomes of the edit-and-save pipeline after a successful fetch.\<close>

lemma editAndSave_edit_fails:
  assumes "object_get L s m opts = Inr node" and "edit node = Inl e"
  shows "editAndSave L edit s m opts = (Inl e, s)"
  using assms by (simp add: editAndSave_def)

lemma editAndSave_saved:
  assumes "object_get L s m opts = Inr node" and "edit node = Inr node'"
    and "persist L s node' = Inr s'"
  shows "editAndSave L edit s m opts = (Inr node', s')"
  using assms by (simp add: editAndSave_def)

lemma editAndSave_InrD:
  assumes "editAndSave L edit s m opts = (Inr node', s')"
  shows "\<exists>node. object_get L s m opts = Inr node \<and> edit node = Inr node' \<and>
           persist L s node' = Inr s'"
  using assms by (auto simp: editAndSave_def split: sum.splits)

text \<open>
  Additions whose result is at most \<open>2 ^ 53\<close> in magnitude are exact; so is the sum of
  sizes that are not negative, as long as the total stays within that bound.
\<close>

lemma js_round_exact: "\<bar>n\<bar> \<le> 2 ^ 53 \<Longrightarrow> js_round n = n"
  by (simp add: js_round_def)

lemma js_add_Some: "\<bar>x + y\<bar> \<le> 2 ^ 53 \<Longrightarrow> js_add (Some x) (Some y) = Some (x + y)"
proof -
  assume b: "\<bar>x + y\<bar> \<le> 2 ^ 53"
  have "(2::int) ^ 53 < 2 ^ 1024"
    by (rule power_strict_increasing) simp_all
  with b have "\<bar>x + y\<bar> < 2 ^ 1024" by linarith
  with b show ?thesis by (simp add: js_add_def js_round_exact)
qed

lemma foldl_js_add:
  assumes "map link_size ls = map Some zs" and "\<forall>z\<in>set zs. 0 \<le> z"
    and "0 \<le> a" and "a + sum_list zs \<le> 2 ^ 53"
  shows "foldl (\<lambda>a l. js_add a (link_size l)) (Some a) ls = Some (a + sum_list zs)"
  using assms
proof (induction ls arbitrary: a zs)
  case Nil
  then show ?case by simp
next
  case (Cons l ls)
  then obtain z zs' where zs: "zs = z # zs'" and l: "link_size l = Some z"
    and rest: "map link_size ls = map Some zs'"
    by (cases zs) auto
  have z: "0 \<le> z" and pos: "\<forall>z\<in>set zs'. 0 \<le> z"
    using Cons.prems(2) zs by simp_all
  then have tail: "0 \<le> sum_list zs'" by (simp add: sum_list_nonneg)
  have step: "js_add (Some a) (Some z) = Some (a + z)"
    using Cons.prems(3,4) z tail zs by (intro js_add_Some) simp
  have "foldl (\<lambda>a l. js_add a (link_size l)) (Some (a + z)) ls = Some (a + z + sum_list zs')"
    using Cons.prems(3,4) z zs by (intro Cons.IH [OF rest pos]) simp_all
  then show ?case by (simp add: zs l step add.assoc)
qed

text \<open>A link without a size turns the sum, and with it the cumulative size, into NaN.\<close>

lemma foldl_js_add_None: "foldl (\<lambda>a l. js_add a (link_size l)) None ls = None"
  by (induction ls) (simp_all add: js_add_def)

lemma foldl_js_add_undefined:
  "None \<in> set (map link_size ls) \<Longrightarrow> foldl (\<lambda>a l. js_add a (link_size l)) a ls = None"
proof (induction ls arbitrary: a)
  case Nil
  then show ?case by simp
next
  case (Cons l ls)
  show ?case
  proof (cases "link_size l")
    case None
    then have "js_add a (link_size l) = None"
      by (simp add: js_add_def split: option.splits)
    then show ?thesis by (simp add: foldl_js_add_None)
  next
    case (Some z)
    with Cons.prems have "None \<in> set (map link_size ls)" by auto
    from Cons.IH [OF this] show ?thesis by simp
  qed
qed

lemma object_stat_NaN:
  assumes "object_get L s m opts = Inr node"
    and "serialize L (data node) (links node) = Inr e"
    and "None \<in> set (map link_size (links node))"
  shows "\<exists>st. object_stat L s m opts = Inr st \<and> CumulativeSize st = None"
proof -
  have "foldl (\<lambda>a l. js_add a (link_size l)) (Some 0) (links node) = None"
    using assms(3) by (rule foldl_js_add_undefined)
  moreover have "js_add (Some (buffer_length e)) None = None"
    by (simp add: js_add_def)
  ultimately show ?thesis
    by (simp add: object_stat_def Let_def assms(1,2))
qed

text \<open>The length of a Buffer is the length of its byte sequence, and is below \<open>2 ^ 32\<close>.\<close>

lemma buffer_length_eq: "length b < 2 ^ 32 \<Longrightarrow> buffer_length b = int (length b)"
proof -
  assume "length b < 2 ^ 32"
  then have "int (length b) < 2 ^ 32"
    by (metis of_nat_less_iff of_nat_numeral of_nat_power)
  then show ?thesis by (simp add: buffer_length_def)
qed

lemma buffer_length_range: "0 \<le> buffer_length b" "buffer_length b < 2 ^ 32"
  by (simp_all add: buffer_length_def)

lemma object_stat_value:
  assumes "object_get L s m opts = Inr node"
    and "serialize L (data node) (links node) = Inr e"
    and "map link_size (links node) = map Some sizes"
    and "\<forall>z\<in>set sizes. 0 \<le> z"
    and "buffer_length e + sum_list sizes \<le> 2 ^ 53"
  shows "object_stat L s m opts =
           Inr \<lparr>Hash = toB58String L (multihash node),
                NumLinks = int (length (links node)),
                BlockSize = buffer_length e,
                LinksSize = buffer_length e - buffer_length (data node),
                DataSize = buffer_length (data node),
                CumulativeSize = Some (buffer_length e + sum_list sizes)\<rparr>"
proof -
  have total: "0 \<le> sum_list sizes"
    using assms(4) by (simp add: sum_list_nonneg)
  have "sum_list sizes \<le> 2 ^ 53"
    using assms(5) buffer_length_range(1) [of e] by linarith
  then have fl: "foldl (\<lambda>a l. js_add a (link_size l)) (Some 0) (links node) = Some (sum_list sizes)"
    using foldl_js_add [OF assms(3,4), of 0] by simp
  have "js_add (Some (buffer_length e)) (Some (sum_list sizes)) =
          Some (buffer_length e + sum_list sizes)"
    using assms(5) total buffer_length_range(1) [of e] by (intro js_add_Some) simp
  then show ?thesis
    by (simp add: object_stat_def assms(1,2) Let_def fl)
qed

lemma appendData_result:
  assumes "object_get L s m opts = Inr node"
    and "serialize L (data node @ d) (links node) = Inr e"
    and "new_CID L (NBuf (multihashing L e)) = Inr c"
  shows "patch_appendData L s m d opts =
           (Inr \<lparr>data = data node @ d, links = links node, multihash = multihashing L e\<rparr>,
            s\<lparr>blocks := (blocks s)(c \<mapsto> e), writes := Suc (writes s)\<rparr>)"
  using assms
  by (simp add: patch_appendData_def editAndSave_def DAGNode_create_def persist_def
      resolver_put_def)

subsection \<open>Fetching altered bytes\<close>

text \<open>
  C1: for every identifier, in whichever form \<^verbatim>\<open>get\<close> accepts it, whose CID has
  bytes stored under it that do not hash to that CID, \<^verbatim>\<open>get\<close> fails with
  \<open>VerificationFailed\<close>; it returns no node. The check is the resolver's, modelled
  from the specification; \<^verbatim>\<open>get\<close> itself normalizes the identifier, builds the CID
  and hands the resolver's outcome to its caller unchanged.
\<close>

theorem get_altered_block_fails:
  assumes "normalizeMultihash L m (enc opts) = Inr mh" and "new_CID L mh = Inr c"
    and "blocks s c = Some bs"
    and "new_CID L (NBuf (multihashing L bs)) \<noteq> Inr c"
  shows "object_get L s m opts = Inl VerificationFailed"
  using assms by (simp add: object_get_def resolver_get_altered)

text \<open>
  The theorem at \<open>corrupted_store\<close>: a put of the bytes 1, 2, 3 stored the node
  under the identifier 18, 2, 5, 9, and the stored bytes were then replaced by 1, 9, 0,
  which hash to 18, 2, 3, 10.
\<close>

theorem get_altered_block_fails_witness:
  "normalizeMultihash test_lib (MBuf [18, 2, 5, 9]) (enc no_options) = Inr (NBuf [18, 2, 5, 9]) \<and>
   new_CID test_lib (NBuf [18, 2, 5, 9]) = Inr [18, 2, 5, 9] \<and>
   blocks abc_store [18, 2, 5, 9] = Some [3, 1, 2, 3, 0] \<and>
   blocks corrupted_store [18, 2, 5, 9] = Some [1, 9, 0] \<and>
   new_CID test_lib (NBuf (multihashing test_lib [1, 9, 0])) \<noteq> Inr [18, 2, 5, 9] \<and>
   object_get test_lib abc_store (MBuf [18, 2, 5, 9]) no_options =
     Inr \<lparr>data = [1, 2, 3], links = [], multihash = [18, 2, 5, 9]\<rparr> \<and>
   object_get test_lib corrupted_store (MBuf [18, 2, 5, 9]) no_options = Inl VerificationFailed"
proof -
  have h1: "normalizeMultihash test_lib (MBuf [18, 2, 5, 9]) (enc no_options) =
              Inr (NBuf [18, 2, 5, 9])"
    by code_simp
  have h2: "new_CID test_lib (NBuf [18, 2, 5, 9]) = Inr [18, 2, 5, 9]" by code_simp
  have h3: "blocks corrupted_store [18, 2, 5, 9] = Some [1, 9, 0]" by code_simp
  have h4: "new_CID test_lib (NBuf (multihashing test_lib [1, 9, 0])) \<noteq> Inr [18, 2, 5, 9]"
    by code_simp
  have before: "blocks abc_store [18, 2, 5, 9] = Some [3, 1, 2, 3, 0]" by code_simp
  have intact: "object_get test_lib abc_store (MBuf [18, 2, 5, 9]) no_options =
                  Inr \<lparr>data = [1, 2, 3], links = [], multihash = [18, 2, 5, 9]\<rparr>"
    by code_simp
  from get_altered_block_fails [OF h1 h2 h3 h4] h1 h2 h3 h4 before intact
  show ?thesis by blast
qed

subsection \<open>Put returns what the store returns\<close>

text \<open>
  C2: for every argument, \<^verbatim>\<open>put\<close> succeeds with the value \<open>r\<close> and the store
  \<open>s'\<close> exactly when the argument normalizes to a node, the node is persisted under
  the CID of its multihash (one block write, giving \<open>s'\<close>), and a \<^verbatim>\<open>get\<close> of that
  multihash in \<open>s'\<close> returns \<open>r\<close>. The value returned is the one read back from the
  store, not the node that was submitted.
\<close>

theorem put_returns_refetched:
  "object_put L s obj opts = (Inr r, s') \<longleftrightarrow>
     (\<exists>node c bs.
        put_node L obj opts = Inr node \<and>
        new_CID L (NBuf (multihash node)) = Inr c \<and>
        serialize L (data node) (links node) = Inr bs \<and>
        s' = s\<lparr>blocks := (blocks s)(c \<mapsto> bs), writes := Suc (writes s)\<rparr> \<and>
        object_get L s' (MBuf (multihash node)) no_options = Inr r)"
  by (auto simp: object_put_def put_next_def persist_def resolver_put_def split: sum.splits)

text \<open>The theorem at the put of a payload-and-links structure into the empty store.\<close>

theorem put_returns_refetched_witness:
  "fst (object_put test_lib empty_store (PObject [1, 2, 3] [sample_link]) no_options) =
     Inr linked_node \<and>
   (\<exists>node c bs.
      put_node test_lib (PObject [1, 2, 3] [sample_link]) no_options = Inr node \<and>
      new_CID test_lib (NBuf (multihash node)) = Inr c \<and>
      serialize test_lib (data node) (links node) = Inr bs \<and>
      linked_store = empty_store\<lparr>blocks := (blocks empty_store)(c \<mapsto> bs),
                                 writes := Suc (writes empty_store)\<rparr> \<and>
      object_get test_lib linked_store (MBuf (multihash node)) no_options = Inr linked_node)"
proof -
  have r: "fst (object_put test_lib empty_store (PObject [1, 2, 3] [sample_link]) no_options) =
             Inr linked_node"
    by code_simp
  then have "object_put test_lib empty_store (PObject [1, 2, 3] [sample_link]) no_options =
               (Inr linked_node, linked_store)"
    by (simp add: linked_store_def prod_eq_iff)
  from put_returns_refetched [THEN iffD1, OF this] r show ?thesis by blast
qed

subsection \<open>The fields of stat\<close>

text \<open>
  C3, as the code has it. The numbers of \<^verbatim>\<open>stat\<close> are JavaScript numbers, and the
  two additions behind the cumulative size round once a sum passes \<open>2 ^ 53\<close>. For
  every stored node with serialized form \<open>serialized\<close>, whose links each declare an
  integer size that is not negative, and for which the block size plus the sum of the declared
  sizes is at most \<open>2 ^ 53\<close>, \<^verbatim>\<open>stat\<close> returns the record of six fields with: the
  block size equal to the length of the serialized form, the links size equal to the
  block size minus the payload length, the data size equal to the payload length, the
  link count equal to the number of links, and the cumulative size equal to the block
  size plus the sum of the declared sizes. The sizes are read from the links as they
  are; no linked node is fetched. Lengths are Buffer lengths.
\<close>

theorem stat_fields:
  assumes "object_get L s m opts = Inr node"
    and "serialize L (data node) (links node) = Inr serialized"
    and "map link_size (links node) = map Some sizes"
    and "\<forall>z\<in>set sizes. 0 \<le> z"
    and "buffer_length serialized + sum_list sizes \<le> 2 ^ 53"
  shows "object_stat L s m opts =
           Inr \<lparr>Hash = toB58String L (multihash node),
                NumLinks = int (length (links node)),
                BlockSize = buffer_length serialized,
                LinksSize = buffer_length serialized - buffer_length (data node),
                DataSize = buffer_length (data node),
                CumulativeSize = Some (buffer_length serialized + sum_list sizes)\<rparr> \<and>
         (length serialized < 2 ^ 32 \<longrightarrow> buffer_length serialized = int (length serialized)) \<and>
         (length (data node) < 2 ^ 32 \<longrightarrow> buffer_length (data node) = int (length (data node)))"
  using object_stat_value [OF assms] by (simp add: buffer_length_eq)

text \<open>The theorem at the node of \<open>linked_store\<close>.\<close>

theorem stat_fields_witness:
  "object_get test_lib linked_store (MBuf [18, 2, 12, 128]) no_options = Inr linked_node \<and>
   serialize test_lib (data linked_node) (links linked_node) =
     Inr [3, 1, 2, 3, 1, 1, 1, 97, 1, 10, 1, 7] \<and>
   map link_size (links linked_node) = map Some [10] \<and>
   buffer_length [3, 1, 2, 3, 1, 1, 1, 97, 1, 10, 1, 7] + sum_list [10] \<le> 2 ^ 53 \<and>
   object_stat test_lib linked_store (MBuf [18, 2, 12, 128]) no_options =
     Inr \<lparr>Hash = toB58String test_lib (multihash linked_node),
          NumLinks = 1, BlockSize = 12, LinksSize = 9, DataSize = 3,
          CumulativeSize = Some 22\<rparr>"
proof -
  have h1: "object_get test_lib linked_store (MBuf [18, 2, 12, 128]) no_options = Inr linked_node"
    by code_simp
  have h2: "serialize test_lib (data linked_node) (links linked_node) =
              Inr [3, 1, 2, 3, 1, 1, 1, 97, 1, 10, 1, 7]"
    by code_simp
  have h3: "map link_size (links linked_node) = map Some [10]"
    by (simp add: linked_node_def sample_link_def)
  have h4: "\<forall>z\<in>set [10 :: int]. 0 \<le> z" by simp
  have h5: "buffer_length [3, 1, 2, 3, 1, 1, 1, 97, 1, 10, 1, 7] + sum_list [10] \<le> 2 ^ 53"
    by (simp add: buffer_length_def)
  have l: "buffer_length [3, 1, 2, 3, 1, 1, 1, 97, 1, 10, 1, 7] = 12"
    "buffer_length (data linked_node) = 3" "int (length (links linked_node)) = 1"
    by (simp_all add: buffer_length_def linked_node_def)
  from stat_fields [OF h1 h2 h3 h4 h5] h1 h2 h3 h5 show ?thesis
    by (simp add: l)
qed

text \<open>
  The claim as the specification states it fails once the sizes are large. The node
  of \<open>big_store\<close> has a block of 26 bytes and two links of declared sizes
  \<open>2 ^ 53 - 1\<close> and 2. The sum of the sizes is \<open>2 ^ 53 + 1\<close>, which is not a double:
  the first addition gives \<open>2 ^ 53\<close>, and \<^verbatim>\<open>stat\<close> reports the cumulative size
  9007199254741018, one less than the block size plus the sum of the sizes.
\<close>

theorem stat_cumulative_rounds_counterexample:
  "object_get test_lib big_store (MBuf [18, 2, 26, 1]) no_options =
     Inr \<lparr>data = [1, 2, 3], links = big_links, multihash = [18, 2, 26, 1]\<rparr> \<and>
   map link_size big_links = [Some 9007199254740991, Some 2] \<and>
   map_sum id BlockSize (object_stat test_lib big_store (MBuf [18, 2, 26, 1]) no_options) =
     Inr 26 \<and>
   map_sum id CumulativeSize (object_stat test_lib big_store (MBuf [18, 2, 26, 1]) no_options) =
     Inr (Some 9007199254741018) \<and>
   (26 :: int) + (9007199254740991 + 2) = 9007199254741019"
  by code_simp

subsection \<open>Removing a link that is not there\<close>

text \<open>
  C4: for every stored node and every name that none of its links carries, the
  remove-link patch fails with \<open>LinkNotFound\<close> and returns the store it was given: no
  block is written, so the block of the original identifier is unchanged. The failure
  itself comes from \<open>DAGNode_rmLink\<close>, modelled from the specification; that a failed
  edit writes nothing is the code of \<^verbatim>\<open>editAndSave\<close>.
\<close>

theorem rmLink_missing_name:
  assumes "object_get L s m opts = Inr node"
    and "Some nm \<notin> set (map link_name (links node))"
  shows "patch_rmLink L s m (RefName nm) opts = (Inl LinkNotFound, s)"
proof -
  have "\<not> list_ex (\<lambda>l. link_name l = Some nm) (links node)"
    using assms(2) by (force simp: list_ex_iff)
  then have "DAGNode_rmLink L node (Some nm) = Inl LinkNotFound"
    by (simp add: DAGNode_rmLink_def)
  with assms(1) show ?thesis
    by (simp add: patch_rmLink_def editAndSave_edit_fails [where node = node])
qed

text \<open>The theorem at the node of \<open>linked_store\<close> and the name \<^verbatim>\<open>missing\<close>.\<close>

theorem rmLink_missing_name_witness:
  "object_get test_lib linked_store (MBuf [18, 2, 12, 128]) no_options = Inr linked_node \<and>
   Some ''missing'' \<notin> set (map link_name (links linked_node)) \<and>
   patch_rmLink test_lib linked_store (MBuf [18, 2, 12, 128]) (RefName ''missing'') no_options =
     (Inl LinkNotFound, linked_store)"
proof -
  have h1: "object_get test_lib linked_store (MBuf [18, 2, 12, 128]) no_options = Inr linked_node"
    by code_simp
  have h2: "Some ''missing'' \<notin> set (map link_name (links linked_node))"
    by (simp add: linked_node_def sample_link_def)
  from rmLink_missing_name [OF h1 h2] h1 h2 show ?thesis by blast
qed

subsection \<open>Appending data\<close>

text \<open>
  C5: for every stored node and every byte sequence, when the new node serializes and
  its multihash is a valid CID, the appendData patch returns the node whose payload is
  the old payload followed by the given bytes and whose links are the old links, and
  writes its block. In particular, appending 2 bytes to a node with a 3-byte payload and
  one link of declared size 10 gives a node whose \<^verbatim>\<open>stat\<close>, read back from the new
  store through a codec that decodes what it encoded, has data size 5 and cumulative
  size equal to the block size plus 10.
\<close>

theorem appendData_concat:
  assumes "object_get L s m opts = Inr node"
    and "serialize L (data node @ d) (links node) = Inr e"
    and "new_CID L (NBuf (multihashing L e)) = Inr c"
  shows "patch_appendData L s m d opts =
           (Inr \<lparr>data = data node @ d, links = links node, multihash = multihashing L e\<rparr>,
            s\<lparr>blocks := (blocks s)(c \<mapsto> e), writes := Suc (writes s)\<rparr>) \<and>
         (length (data node) = 3 \<and> length d = 2 \<and>
          (\<exists>l. links node = [l] \<and> link_size l = Some 10) \<and>
          deserialize L e = Inr (data node @ d, links node) \<longrightarrow>
          (\<exists>st. object_stat L (snd (patch_appendData L s m d opts))
                  (MBuf (multihashing L e)) no_options = Inr st \<and>
                DataSize st = 5 \<and>
                CumulativeSize st = Some (BlockSize st + 10)))"
proof (intro conjI impI)
  let ?n' = "\<lparr>data = data node @ d, links = links node, multihash = multihashing L e\<rparr>"
  let ?s' = "s\<lparr>blocks := (blocks s)(c \<mapsto> e), writes := Suc (writes s)\<rparr>"
  show res: "patch_appendData L s m d opts = (Inr ?n', ?s')"
    using assms by (rule appendData_result)
  assume sc: "length (data node) = 3 \<and> length d = 2 \<and>
              (\<exists>l. links node = [l] \<and> link_size l = Some 10) \<and>
              deserialize L e = Inr (data node @ d, links node)"
  then obtain l where l: "links node = [l]" "link_size l = Some 10" by blast
  have get': "object_get L ?s' (MBuf (multihashing L e)) no_options = Inr ?n'"
    using sc assms(2,3) by (simp add: object_get_MBuf resolver_get_decoded)
  have sizes: "map link_size (links ?n') = map Some [10]"
    using l by simp
  have ser': "serialize L (data ?n') (links ?n') = Inr e"
    using assms(2) by simp
  have pos: "\<forall>z\<in>set [10 :: int]. 0 \<le> z" by simp
  have small: "buffer_length e + sum_list [10] \<le> 2 ^ 53"
    using buffer_length_range(2) [of e] by simp
  have five: "buffer_length (data node @ d) = 5"
    using sc by (simp add: buffer_length_def)
  from object_stat_value [OF get' ser' sizes pos small] five obtain st where
    st: "object_stat L ?s' (MBuf (multihashing L e)) no_options = Inr st"
      "DataSize st = 5"
      "CumulativeSize st = Some (BlockSize st + 10)"
    by auto
  show "\<exists>st. object_stat L (snd (patch_appendData L s m d opts))
                  (MBuf (multihashing L e)) no_options = Inr st \<and>
                DataSize st = 5 \<and>
                CumulativeSize st = Some (BlockSize st + 10)"
    using sc st by (simp add: res)
qed

text \<open>The theorem at the node of \<open>linked_store\<close> and the bytes 4, 5.\<close>

theorem appendData_concat_witness:
  "object_get test_lib linked_store (MBuf [18, 2, 12, 128]) no_options = Inr linked_node \<and>
   serialize test_lib (data linked_node @ [4, 5]) (links linked_node) =
     Inr [5, 1, 2, 3, 4, 5, 1, 1, 1, 97, 1, 10, 1, 7] \<and>
   new_CID test_lib (NBuf (multihashing test_lib [5, 1, 2, 3, 4, 5, 1, 1, 1, 97, 1, 10, 1, 7])) =
     Inr [18, 2, 14, 139] \<and>
   patch_appendData test_lib linked_store (MBuf [18, 2, 12, 128]) [4, 5] no_options =
     (Inr \<lparr>data = data linked_node @ [4, 5], links = links linked_node,
           multihash = multihashing test_lib [5, 1, 2, 3, 4, 5, 1, 1, 1, 97, 1, 10, 1, 7]\<rparr>,
      linked_store\<lparr>blocks := (blocks linked_store)
                       ([18, 2, 14, 139] \<mapsto> [5, 1, 2, 3, 4, 5, 1, 1, 1, 97, 1, 10, 1, 7]),
                   writes := Suc (writes linked_store)\<rparr>) \<and>
   (\<exists>st. object_stat test_lib
            (snd (patch_appendData test_lib linked_store (MBuf [18, 2, 12, 128]) [4, 5] no_options))
            (MBuf (multihashing test_lib [5, 1, 2, 3, 4, 5, 1, 1, 1, 97, 1, 10, 1, 7]))
            no_options = Inr st \<and>
         DataSize st = 5 \<and>
         CumulativeSize st = Some (BlockSize st + 10))"
proof -
  have h1: "object_get test_lib linked_store (MBuf [18, 2, 12, 128]) no_options = Inr linked_node"
    by code_simp
  have h2: "serialize test_lib (data linked_node @ [4, 5]) (links linked_node) =
              Inr [5, 1, 2, 3, 4, 5, 1, 1, 1, 97, 1, 10, 1, 7]"
    by code_simp
  have h3: "new_CID test_lib
              (NBuf (multihashing test_lib [5, 1, 2, 3, 4, 5, 1, 1, 1, 97, 1, 10, 1, 7])) =
              Inr [18, 2, 14, 139]"
    by code_simp
  have h4: "length (data linked_node) = 3 \<and> length [4, 5 :: 8 word] = 2 \<and>
            (\<exists>l. links linked_node = [l] \<and> link_size l = Some 10)"
    by (simp add: linked_node_def sample_link_def)
  have h5: "deserialize test_lib [5, 1, 2, 3, 4, 5, 1, 1, 1, 97, 1, 10, 1, 7] =
              Inr (data linked_node @ [4, 5], links linked_node)"
    by code_simp
  from appendData_concat [OF h1 h2 h3] h1 h2 h3 h4 h5 show ?thesis by blast
qed

subsection \<open>Field-name aliases in JSON links\<close>

text \<open>
  The \<^verbatim>\<open>||\<close> chains of \<^verbatim>\<open>parseJSONBuffer\<close> pick the first truthy field. A link
  written with the lower-case names parses as the canonical one when its name is not
  the empty string; the alias \<^verbatim>\<open>hash\<close> always parses as \<^verbatim>\<open>Hash\<close>, and the alias
  \<^verbatim>\<open>multihash\<close> does when the hash is not the empty string. A size that is absent or
  0 is refused by the DAGLink constructor under either spelling.
\<close>

lemma parse_link_falsy_size:
  assumes "\<not> truthy_num (js_or truthy_num (jSize l) (jsize l))"
  shows "parse_link L l = None"
  using assms by (simp add: parse_link_def new_DAGLink_def split: option.splits)

lemma parse_link_lower_case:
  assumes "canonical_link l" and "jName l \<noteq> Some []"
  shows "parse_link L (lower_case_link l) = parse_link L l"
  using assms
  by (auto simp: parse_link_def new_DAGLink_def lower_case_link_def canonical_link_def
      js_or_def truthy_str_def truthy_num_def split: option.splits)

lemma parse_link_hash_alias:
  assumes "canonical_link l"
  shows "parse_link L (l\<lparr>jHash := None, jhash := jHash l\<rparr>) = parse_link L l"
  using assms
  by (auto simp: parse_link_def canonical_link_def js_or_def truthy_str_def split: option.splits)

lemma parse_link_multihash:
  assumes "canonical_link l" and "jHash l \<noteq> Some []"
  shows "parse_link L (multihash_link l) = parse_link L l"
  using assms
  by (auto simp: parse_link_def multihash_link_def canonical_link_def js_or_def truthy_str_def
      split: option.splits)

lemma parse_links_lower_case:
  assumes "list_all (\<lambda>l. canonical_link l \<and> jName l \<noteq> Some []) ls"
  shows "parse_links L (map lower_case_link ls) = parse_links L ls"
  using assms by (induction ls) (simp_all add: parse_link_lower_case cong: option.case_cong)

lemma parseJSONDoc_lower_case:
  assumes "list_all (\<lambda>l. canonical_link l \<and> jName l \<noteq> Some []) ls"
  shows "parseJSONDoc L \<lparr>jData = d, jLinks = Some (map lower_case_link ls)\<rparr> =
         parseJSONDoc L \<lparr>jData = d, jLinks = Some ls\<rparr>"
  using assms by (simp add: parseJSONDoc_def parse_links_lower_case cong: option.case_cong)

text \<open>
  With an empty name the two spellings part, for every library and every size that
  is not 0: the canonical \<^verbatim>\<open>Name\<close> is falsy, so the chain falls through to the
  absent alias and the link is built with the name \<^verbatim>\<open>undefined\<close>; the alias
  \<^verbatim>\<open>name\<close> is the last of the chain and is passed as it is.
\<close>

lemma parse_link_empty_name:
  assumes "fromB58String L (Some h) = Some m" and "h \<noteq> []" and "sz \<noteq> 0"
  shows "parse_link L \<lparr>jName = Some [], jname = None, jSize = Some sz, jsize = None,
                        jHash = Some h, jhash = None, jmultihash = None\<rparr> =
           Some \<lparr>link_name = None, link_size = Some sz, link_multihash = m\<rparr>"
    and "parse_link L \<lparr>jName = None, jname = Some [], jSize = None, jsize = Some sz,
                        jHash = None, jhash = Some h, jmultihash = None\<rparr> =
           Some \<lparr>link_name = Some [], link_size = Some sz, link_multihash = m\<rparr>"
  using assms
  by (simp_all add: parse_link_def new_DAGLink_def js_or_def truthy_str_def truthy_num_def)

text \<open>
  C6 fails on the code at a document whose link has the empty name and the size 10.
  Written with \<^verbatim>\<open>Name\<close> it parses to a link without a name; written with
  \<^verbatim>\<open>name\<close> it parses to a link with the name \<^verbatim>\<open>''\<close>. The two nodes differ, and
  so do their multihashes.
\<close>

theorem parse_alias_empty_name:
  "parseJSONBuffer test_lib (text_bytes canonical_text) =
     Inr \<lparr>data = [97, 98, 99],
          links = [\<lparr>link_name = None, link_size = Some 10,
                    link_multihash = text_bytes sample_hash\<rparr>],
          multihash = [18, 2, 55, 77]\<rparr> \<and>
   parseJSONBuffer test_lib (text_bytes alias_text) =
     Inr \<lparr>data = [97, 98, 99],
          links = [\<lparr>link_name = Some [], link_size = Some 10,
                    link_multihash = text_bytes sample_hash\<rparr>],
          multihash = [18, 2, 56, 78]\<rparr> \<and>
   parseJSONBuffer test_lib (text_bytes alias_text) \<noteq>
     parseJSONBuffer test_lib (text_bytes canonical_text)"
proof -
  have canonical:
    "parseJSONBuffer test_lib (text_bytes canonical_text) =
       Inr \<lparr>data = [97, 98, 99],
            links = [\<lparr>link_name = None, link_size = Some 10,
                      link_multihash = text_bytes sample_hash\<rparr>],
            multihash = [18, 2, 55, 77]\<rparr>"
    by code_simp
  have lower:
    "parseJSONBuffer test_lib (text_bytes alias_text) =
       Inr \<lparr>data = [97, 98, 99],
            links = [\<lparr>link_name = Some [], link_size = Some 10,
                      link_multihash = text_bytes sample_hash\<rparr>],
            multihash = [18, 2, 56, 78]\<rparr>"
    by code_simp
  show ?thesis by (simp add: canonical lower)
qed

subsection \<open>Setting the same data twice\<close>

text \<open>
  C7: let the setData patch on the identifier \<open>m\<close> with the bytes \<open>b\<close> succeed
  with the node \<open>n1\<close> and the store \<open>s1\<close>, and let the codec decode the serialized
  form of \<open>n1\<close> back to its payload and links. Then the same patch run again, on
  \<open>s1\<close>, succeeds with a node of the same identifier. The codec's round trip is needed
  only when the first run wrote under \<open>m\<close> itself.
\<close>

theorem setData_twice_same_identifier:
  assumes first: "patch_setData L s m b opts = (Inr n1, s1)"
    and ser: "serialize L b (links n1) = Inr e"
    and rt: "deserialize L e = Inr (b, links n1)"
  shows "\<exists>n2 s2. patch_setData L s1 m b opts = (Inr n2, s2) \<and> multihash n2 = multihash n1"
proof -
  from first obtain n0 where get0: "object_get L s m opts = Inr n0"
    and edit0: "DAGNode_create L b (links n0) = Inr n1"
    and per0: "persist L s n1 = Inr s1"
    unfolding patch_setData_def by (blast dest: editAndSave_InrD)
  from DAGNode_create_InrD [OF edit0] ser
  have n1: "n1 = \<lparr>data = b, links = links n0, multihash = multihashing L e\<rparr>"
    by auto
  then have ln: "links n1 = links n0" and dn: "data n1 = b" by simp_all
  from persist_InrD [OF per0] ser dn obtain c1 where
    c1: "new_CID L (NBuf (multihash n1)) = Inr c1"
    and s1: "s1 = s\<lparr>blocks := (blocks s)(c1 \<mapsto> e), writes := Suc (writes s)\<rparr>"
    by auto
  from get0 obtain mh c where mh: "normalizeMultihash L m (enc opts) = Inr mh"
    and c: "new_CID L mh = Inr c" and r0: "resolver_get L s c = Inr n0"
    by (auto simp: object_get_def split: sum.splits)
  have create1: "DAGNode_create L b (links n1) = Inr n1"
    using ser n1 by (simp add: DAGNode_create_def)
  have "\<exists>n. object_get L s1 m opts = Inr n \<and> links n = links n1"
  proof (cases "c = c1")
    case True
    have "new_CID L (NBuf (multihashing L e)) = Inr c"
      using True c1 n1 by simp
    then have "resolver_get L s1 c = Inr n1"
      using True rt ser n1 ln
      by (simp add: s1 resolver_get_def dagPB_deserialize_def DAGNode_create_def)
    then show ?thesis by (simp add: object_get_def mh c)
  next
    case False
    then have "resolver_get L s1 c = resolver_get L s c"
      by (intro resolver_get_cong) (simp add: s1)
    then show ?thesis by (simp add: object_get_def mh c r0 ln)
  qed
  then obtain n where get1: "object_get L s1 m opts = Inr n" and l1: "links n = links n1"
    by blast
  have edit1: "DAGNode_create L b (links n) = Inr n1"
    using create1 l1 by simp
  from persist_written [OF c1, of e s1] ser dn obtain s2 where per1: "persist L s1 n1 = Inr s2"
    by auto
  have "patch_setData L s1 m b opts = (Inr n1, s2)"
    unfolding patch_setData_def using get1 edit1 per1 by (rule editAndSave_saved)
  then show ?thesis by blast
qed

text \<open>
  The theorem at the node of \<open>linked_store\<close>, set to the payload it already has: the
  first run writes under the identifier it read from.
\<close>

theorem setData_twice_same_identifier_witness:
  "fst (patch_setData test_lib linked_store (MBuf [18, 2, 12, 128]) [1, 2, 3] no_options) =
     Inr linked_node \<and>
   serialize test_lib [1, 2, 3] (links linked_node) =
     Inr [3, 1, 2, 3, 1, 1, 1, 97, 1, 10, 1, 7] \<and>
   deserialize test_lib [3, 1, 2, 3, 1, 1, 1, 97, 1, 10, 1, 7] =
     Inr ([1, 2, 3], links linked_node) \<and>
   (\<exists>n2 s2.
      patch_setData test_lib
        (snd (patch_setData test_lib linked_store (MBuf [18, 2, 12, 128]) [1, 2, 3] no_options))
        (MBuf [18, 2, 12, 128]) [1, 2, 3] no_options = (Inr n2, s2) \<and>
      multihash n2 = multihash linked_node)"
proof -
  let ?run = "patch_setData test_lib linked_store (MBuf [18, 2, 12, 128]) [1, 2, 3] no_options"
  have h0: "fst ?run = Inr linked_node" by code_simp
  then have h1: "?run = (Inr linked_node, snd ?run)" by (simp add: prod_eq_iff)
  have h2: "serialize test_lib [1, 2, 3] (links linked_node) =
              Inr [3, 1, 2, 3, 1, 1, 1, 97, 1, 10, 1, 7]"
    by code_simp
  have h3: "deserialize test_lib [3, 1, 2, 3, 1, 1, 1, 97, 1, 10, 1, 7] =
              Inr ([1, 2, 3], links linked_node)"
    by code_simp
  from setData_twice_same_identifier [OF h1 h2 h3] h0 h2 h3 show ?thesis by blast
qed

subsection \<open>Arguments that put does not recognize\<close>

text \<open>
  A string, a number or a boolean reaches the last branch of \<^verbatim>\<open>put\<close> and fails with
  \<open>UnrecognizedInput\<close>; a buffer with a non-empty encoding name other than
  \<^verbatim>\<open>json\<close> and \<^verbatim>\<open>protobuf\<close> fails with \<open>UnknownEncoding\<close>. Neither writes.
\<close>

lemma put_primitive_unrecognized:
  "object_put L s (PPrim p) opts = (Inl UnrecognizedInput, s)"
  by (simp add: object_put_def put_node_def)

lemma put_unknown_encoding:
  assumes "encoding \<noteq> []" and "encoding \<noteq> ''json''" and "encoding \<noteq> ''protobuf''"
  shows "object_put L s (PBuffer b) \<lparr>enc = Some encoding\<rparr> = (Inl (UnknownEncoding encoding), s)"
  using assms by (simp add: object_put_def put_node_def parseBuffer_def)

text \<open>
  C8 fails on the code at \<^verbatim>\<open>undefined\<close> and \<^verbatim>\<open>null\<close>. Neither is a buffer, a node
  or a payload-and-links structure, but \<^verbatim>\<open>put\<close> reads \<^verbatim>\<open>obj.multihash\<close> before it
  looks at \<^verbatim>\<open>typeof obj\<close>: the read throws a TypeError, and the branch that reports
  \<open>UnrecognizedInput\<close> is never reached.
\<close>

theorem put_undefined_TypeError:
  "object_put L s PUndefined opts = (Inl TypeError, s) \<and>
   object_put L s PNull opts = (Inl TypeError, s) \<and>
   fst (object_put L s PUndefined opts) \<noteq> Inl UnrecognizedInput"
  by (simp add: object_put_def put_node_def)

subsection \<open>Creating the empty node\<close>

text \<open>
  C9: when the empty payload with no links serializes to \<open>e\<close> and the multihash of
  \<open>e\<close> is a valid CID \<open>c\<close>, \<^verbatim>\<open>new\<close> returns the node with empty payload, no links
  and the multihash of \<open>e\<close> as its identifier, and leaves the store with \<open>e\<close> written
  under \<open>c\<close> and one block write more. The node returned is the one that was
  persisted.
\<close>

theorem new_empty_node:
  assumes "serialize L [] [] = Inr e"
    and "new_CID L (NBuf (multihashing L e)) = Inr c"
  shows "object_new L s =
           (Inr \<lparr>data = [], links = [], multihash = multihashing L e\<rparr>,
            s\<lparr>blocks := (blocks s)(c \<mapsto> e), writes := Suc (writes s)\<rparr>)"
  using assms by (simp add: object_new_def DAGNode_create_def persist_def resolver_put_def)

text \<open>The theorem at the empty store.\<close>

theorem new_empty_node_witness:
  "serialize test_lib [] [] = Inr [0, 0] \<and>
   new_CID test_lib (NBuf (multihashing test_lib [0, 0])) = Inr [18, 2, 2, 0] \<and>
   object_new test_lib empty_store =
     (Inr \<lparr>data = [], links = [], multihash = multihashing test_lib [0, 0]\<rparr>,
      empty_store\<lparr>blocks := (blocks empty_store)([18, 2, 2, 0] \<mapsto> [0, 0]),
                  writes := Suc (writes empty_store)\<rparr>)"
proof -
  have h1: "serialize test_lib [] [] = Inr [0, 0]" by code_simp
  have h2: "new_CID test_lib (NBuf (multihashing test_lib [0, 0])) = Inr [18, 2, 2, 0]"
    by code_simp
  from new_empty_node [OF h1 h2] h1 h2 show ?thesis by blast
qed

subsection \<open>Removing a link by value or by name\<close>

text \<open>
  C10: in \<^verbatim>\<open>patch.rmLink\<close>, a link reference that is a DAGLink is reduced to its name
  before \<^verbatim>\<open>DAGNode.rmLink\<close> is called. Passing a link whose name is the string
  \<open>nm\<close> gives the same result, the same failure and the same store as passing
  \<open>nm\<close> itself, for every identifier, stored or not.
\<close>

theorem rmLink_DAGLink_as_name:
  "patch_rmLink L s m (RefLink \<lparr>link_name = Some nm, link_size = sz, link_multihash = h\<rparr>) opts =
   patch_rmLink L s m (RefName nm) opts"
  by (simp add: patch_rmLink_def)

end
